theory Spec2Isabelle
  imports Complex_Main "HOL-Library.Multiset"
begin

section \<open>Python values\<close>

text \<open>
  The program is \<^verbatim>\<open>src/oi_pool/oi.py\<close>. It handles decoded JSON, Python floats and
  exceptions; this section models the three.

  A Python float is a finite number, an infinity or NaN. The finite values are taken
  as reals; signed zeros are one value \<open>Fin 0\<close>. Rounding to binary64 is the function
  \<open>round_float\<close> of the runtime below, which every theorem leaves arbitrary.
\<close>

datatype pyfloat = Fin real | PInf | NInf | NaN

datatype json =
    JNull
  | JBool bool
  | JInt int
  | JFloat pyfloat
  | JString string
  | JArray "json list"
  | JObject "(string \<times> json) list"

datatype pyerr =
  TypeError | KeyError | ValueError | AttributeError | ZeroDivisionError | OverflowError

text \<open>
  What the interpreter supplies: \<open>float_of_str s\<close> is \<^verbatim>\<open>float(s)\<close> on a string
  (\<open>None\<close> where it raises ValueError), \<open>round_float r\<close> the float nearest to the real
  \<open>r\<close> (an infinity when \<open>r\<close> is out of range).
\<close>

record runtime =
  float_of_str :: "string \<Rightarrow> pyfloat option"
  round_float :: "real \<Rightarrow> pyfloat"

definition bind_err :: "pyerr + 'a \<Rightarrow> ('a \<Rightarrow> pyerr + 'b) \<Rightarrow> pyerr + 'b" where
  "bind_err m f = (case m of Inl e \<Rightarrow> Inl e | Inr x \<Rightarrow> f x)"

subsection \<open>Float arithmetic and comparison\<close>

fun fsub :: "runtime \<Rightarrow> pyfloat \<Rightarrow> pyfloat \<Rightarrow> pyfloat" where
  "fsub rt NaN _ = NaN"
| "fsub rt _ NaN = NaN"
| "fsub rt (Fin a) (Fin b) = round_float rt (a - b)"
| "fsub rt PInf PInf = NaN"
| "fsub rt NInf NInf = NaN"
| "fsub rt PInf _ = PInf"
| "fsub rt NInf _ = NInf"
| "fsub rt (Fin a) PInf = NInf"
| "fsub rt (Fin a) NInf = PInf"

text \<open>\<open>fdiv\<close> is the quotient for a divisor other than zero; \<open>float_truediv\<close> is
  Python's \<^verbatim>\<open>/\<close>, which raises ZeroDivisionError on a zero divisor.\<close>

fun fdiv :: "runtime \<Rightarrow> pyfloat \<Rightarrow> pyfloat \<Rightarrow> pyfloat" where
  "fdiv rt NaN _ = NaN"
| "fdiv rt _ NaN = NaN"
| "fdiv rt (Fin a) (Fin b) = round_float rt (a / b)"
| "fdiv rt (Fin a) _ = Fin 0"
| "fdiv rt PInf (Fin b) = (if 0 < b then PInf else NInf)"
| "fdiv rt NInf (Fin b) = (if 0 < b then NInf else PInf)"
| "fdiv rt _ _ = NaN"

definition float_truediv :: "runtime \<Rightarrow> pyfloat \<Rightarrow> pyfloat \<Rightarrow> pyerr + pyfloat" where
  "float_truediv rt a b = (if b = Fin 0 then Inl ZeroDivisionError else Inr (fdiv rt a b))"

fun fmul :: "runtime \<Rightarrow> pyfloat \<Rightarrow> pyfloat \<Rightarrow> pyfloat" where
  "fmul rt NaN _ = NaN"
| "fmul rt _ NaN = NaN"
| "fmul rt (Fin a) (Fin b) = round_float rt (a * b)"
| "fmul rt PInf (Fin b) = (if b = 0 then NaN else if 0 < b then PInf else NInf)"
| "fmul rt NInf (Fin b) = (if b = 0 then NaN else if 0 < b then NInf else PInf)"
| "fmul rt (Fin a) PInf = (if a = 0 then NaN else if 0 < a then PInf else NInf)"
| "fmul rt (Fin a) NInf = (if a = 0 then NaN else if 0 < a then NInf else PInf)"
| "fmul rt PInf PInf = PInf"
| "fmul rt NInf NInf = PInf"
| "fmul rt PInf NInf = NInf"
| "fmul rt NInf PInf = NInf"

fun fabs :: "pyfloat \<Rightarrow> pyfloat" where
  "fabs (Fin a) = Fin \<bar>a\<bar>"
| "fabs PInf = PInf"
| "fabs NInf = PInf"
| "fabs NaN = NaN"

text \<open>Comparisons with NaN are false.\<close>

fun flt :: "pyfloat \<Rightarrow> pyfloat \<Rightarrow> bool" where
  "flt NaN _ = False"
| "flt _ NaN = False"
| "flt (Fin a) (Fin b) = (a < b)"
| "flt _ NInf = False"
| "flt PInf _ = False"
| "flt NInf _ = True"
| "flt (Fin a) PInf = True"

fun fge :: "pyfloat \<Rightarrow> pyfloat \<Rightarrow> bool" where
  "fge NaN _ = False"
| "fge _ NaN = False"
| "fge a b = (\<not> flt a b)"

subsection \<open>Builtins on decoded JSON\<close>

text \<open>\<^verbatim>\<open>float(v)\<close>: a string is parsed, an int is rounded (OverflowError when it is
  too large), a float is itself, a bool is 1.0 or 0.0, anything else is a TypeError.\<close>

fun py_float :: "runtime \<Rightarrow> json \<Rightarrow> pyerr + pyfloat" where
  "py_float rt (JString s) =
     (case float_of_str rt s of None \<Rightarrow> Inl ValueError | Some f \<Rightarrow> Inr f)"
| "py_float rt (JInt i) =
     (case round_float rt (of_int i) of Fin r \<Rightarrow> Inr (Fin r) | _ \<Rightarrow> Inl OverflowError)"
| "py_float rt (JFloat f) = Inr f"
| "py_float rt (JBool b) = Inr (Fin (if b then 1 else 0))"
| "py_float rt _ = Inl TypeError"

text \<open>\<^verbatim>\<open>v[key]\<close> with a string key: a dict looks the key up (KeyError when it is
  missing); a list, a string and every other value raise TypeError.\<close>

fun getitem_str :: "json \<Rightarrow> string \<Rightarrow> pyerr + json" where
  "getitem_str (JObject kvs) key =
     (case map_of kvs key of None \<Rightarrow> Inl KeyError | Some v \<Rightarrow> Inr v)"
| "getitem_str _ key = Inl TypeError"

text \<open>\<^verbatim>\<open>item.get(key)\<close>: only a dict has the method; a missing key gives None.\<close>

fun py_get :: "json \<Rightarrow> string \<Rightarrow> pyerr + json" where
  "py_get (JObject kvs) key =
     (case map_of kvs key of None \<Rightarrow> Inr JNull | Some v \<Rightarrow> Inr v)"
| "py_get _ key = Inl AttributeError"

text \<open>Truth value of a decoded JSON value (\<^verbatim>\<open>not data\<close>).\<close>

fun py_truthy :: "json \<Rightarrow> bool" where
  "py_truthy JNull = False"
| "py_truthy (JBool b) = b"
| "py_truthy (JInt i) = (i \<noteq> 0)"
| "py_truthy (JFloat f) = (f \<noteq> Fin 0)"
| "py_truthy (JString s) = (s \<noteq> [])"
| "py_truthy (JArray xs) = (xs \<noteq> [])"
| "py_truthy (JObject kvs) = (kvs \<noteq> [])"

fun starts_with :: "string \<Rightarrow> string \<Rightarrow> bool" where
  "starts_with s [] = True"
| "starts_with [] (k # ks) = False"
| "starts_with (c # cs) (k # ks) = (c = k \<and> starts_with cs ks)"

fun has_substring :: "string \<Rightarrow> string \<Rightarrow> bool" where
  "has_substring [] key = starts_with [] key"
| "has_substring (c # cs) key = (starts_with (c # cs) key \<or> has_substring cs key)"

text \<open>\<^verbatim>\<open>key in v\<close> with a string key: key membership in a dict, element membership
  in a list, substring test in a string, TypeError on anything else.\<close>

fun py_contains :: "json \<Rightarrow> string \<Rightarrow> pyerr + bool" where
  "py_contains (JObject kvs) key = Inr (map_of kvs key \<noteq> None)"
| "py_contains (JArray xs) key = Inr (JString key \<in> set xs)"
| "py_contains (JString s) key = Inr (has_substring s key)"
| "py_contains _ key = Inl TypeError"

text \<open>Iterating a value: a list gives its elements, a dict its keys, a string its
  characters; anything else is not iterable.\<close>

fun py_iter :: "json \<Rightarrow> pyerr + json list" where
  "py_iter (JArray xs) = Inr xs"
| "py_iter (JObject kvs) = Inr (map (\<lambda>kv. JString (fst kv)) kvs)"
| "py_iter (JString s) = Inr (map (\<lambda>c. JString [c]) s)"
| "py_iter _ = Inl TypeError"

section \<open>The data source client\<close>

text \<open>
  \<^verbatim>\<open>fetch_json\<close> returns the decoded body, or None when the request or the decoding
  raises. The exchange is therefore given by what each of the two calls returns:
  \<open>exchange_info\<close> for the catalog, \<open>open_interest_hist sym\<close> for the history of one
  symbol. \<open>finish_time i\<close> is the moment at which the \<open>i\<close>-th task of a scan completes.
\<close>

record exchange =
  exchange_info :: "json option"
  open_interest_hist :: "json \<Rightarrow> json option"
  finish_time :: "nat \<Rightarrow> nat"

definition entry_matches :: "json \<Rightarrow> pyerr + bool" where
  "entry_matches item =
     bind_err (py_get item ''contractType'') (\<lambda>ct.
       if ct \<noteq> JString ''PERPETUAL'' then Inr False
       else bind_err (py_get item ''quoteAsset'') (\<lambda>qa.
         if qa \<noteq> JString ''USDT'' then Inr False
         else bind_err (py_get item ''status'') (\<lambda>st.
           Inr (st = JString ''TRADING''))))"

text \<open>The list comprehension of \<^verbatim>\<open>get_usdtm_symbols\<close>: the first exception ends it.\<close>

fun select_symbols :: "json list \<Rightarrow> pyerr + json list" where
  "select_symbols [] = Inr []"
| "select_symbols (item # items) =
     bind_err (entry_matches item) (\<lambda>m.
       if m then
         bind_err (getitem_str item ''symbol'') (\<lambda>sym.
           bind_err (select_symbols items) (\<lambda>rest. Inr (sym # rest)))
       else select_symbols items)"

definition get_usdtm_symbols :: "json option \<Rightarrow> pyerr + json list" where
  "get_usdtm_symbols data =
     (case data of
        None \<Rightarrow> Inr []
      | Some d \<Rightarrow>
          if \<not> py_truthy d then Inr []
          else bind_err (py_contains d ''symbols'') (\<lambda>present.
            if \<not> present then Inr []
            else bind_err (getitem_str d ''symbols'') (\<lambda>syms.
              bind_err (py_iter syms) select_symbols)))"

text \<open>The body of the \<^verbatim>\<open>try\<close> block of \<^verbatim>\<open>get_oi_change\<close>, on a list of at least
  two elements.\<close>

definition oi_change_try :: "runtime \<Rightarrow> json list \<Rightarrow> pyerr + (pyfloat \<times> pyfloat)" where
  "oi_change_try rt xs =
     bind_err (getitem_str (xs ! 0) ''sumOpenInterestValue'') (\<lambda>v0.
     bind_err (py_float rt v0) (\<lambda>oi_old.
     bind_err (getitem_str (xs ! 1) ''sumOpenInterestValue'') (\<lambda>v1.
     bind_err (py_float rt v1) (\<lambda>oi_now.
     bind_err (float_truediv rt (fsub rt oi_now oi_old) oi_old) (\<lambda>q.
       Inr (fmul rt q (Fin 100), oi_now))))))"

definition get_oi_change ::
  "runtime \<Rightarrow> json option \<Rightarrow> json \<Rightarrow> (json \<times> pyfloat \<times> pyfloat) option" where
  "get_oi_change rt data symbol =
     (case data of
        Some (JArray xs) \<Rightarrow>
          if length xs < 2 then None
          else (case oi_change_try rt xs of
                  Inl e \<Rightarrow> None
                | Inr (change, oi_now) \<Rightarrow> Some (symbol, change, oi_now))
      | _ \<Rightarrow> None)"

section \<open>The scanner and the publisher\<close>

definition THRESHOLD :: int where
  "THRESHOLD = 8"

text \<open>
  \<^verbatim>\<open>asyncio.as_completed\<close> yields every task once, in the order in which the tasks
  finish. The tasks are numbered in submission order; tasks that finish at the same
  moment are taken in submission order.
\<close>

definition as_completed :: "(nat \<Rightarrow> nat) \<Rightarrow> 'a list \<Rightarrow> 'a list" where
  "as_completed finish xs = map snd (sort_key (\<lambda>ix. finish (fst ix)) (enumerate 0 xs))"

text \<open>The results of one fan-out: every task's value that is not None
  (\<^verbatim>\<open>if r: results.append(r)\<close>; a tuple of three is always true).\<close>

definition scan_results ::
  "runtime \<Rightarrow> exchange \<Rightarrow> json list \<Rightarrow> (json \<times> pyfloat \<times> pyfloat) list" where
  "scan_results rt ex symbols =
     List.map_filter (\<lambda>r. r)
       (as_completed (finish_time ex)
          (map (\<lambda>s. get_oi_change rt (open_interest_hist ex s) s) symbols))"

definition abs_change :: "json \<times> pyfloat \<times> pyfloat \<Rightarrow> pyfloat" where
  "abs_change r = fabs (fst (snd r))"

definition spikes_of :: "(json \<times> pyfloat \<times> pyfloat) list \<Rightarrow> (json \<times> pyfloat \<times> pyfloat) list" where
  "spikes_of results = filter (\<lambda>r. fge (abs_change r) (Fin (of_int THRESHOLD))) results"

text \<open>
  \<^verbatim>\<open>sorted(xs, key=k, reverse=True)\<close>: a stable sort in which every comparison of two
  keys is reversed. An element goes in front of the first element of the sorted rest
  whose key it is not less than.
\<close>

fun insort_reverse :: "('a \<Rightarrow> pyfloat) \<Rightarrow> 'a \<Rightarrow> 'a list \<Rightarrow> 'a list" where
  "insort_reverse k x [] = [x]"
| "insort_reverse k x (y # ys) =
     (if \<not> flt (k x) (k y) then x # y # ys else y # insort_reverse k x ys)"

fun sorted_reverse :: "('a \<Rightarrow> pyfloat) \<Rightarrow> 'a list \<Rightarrow> 'a list" where
  "sorted_reverse k [] = []"
| "sorted_reverse k (x # xs) = insort_reverse k x (sorted_reverse k xs)"

text \<open>The two module globals read by the query handlers.\<close>

record published =
  coin_pool :: "json list"
  oi_top :: "json list"

definition initial_state :: published where
  "initial_state = \<lparr>coin_pool = [], oi_top = []\<rparr>"

definition publish :: "(json \<times> pyfloat \<times> pyfloat) list \<Rightarrow> published \<Rightarrow> published" where
  "publish spikes st =
     (if spikes \<noteq> [] then
        \<lparr>coin_pool = map fst spikes,
         oi_top = map fst (sorted_reverse abs_change spikes)\<rparr>
      else st)"

text \<open>
  One call of \<^verbatim>\<open>run_scan\<close>: the exception with which \<^verbatim>\<open>get_usdtm_symbols\<close> left
  it (if any; nothing catches it), the globals after it, and the requests it sent:
  the catalog request, then one history request for each symbol, listed in the order
  of the universe (the order in which the event loop starts them is not modelled).
  The semaphore only delays requests, and the \<^verbatim>\<open>print\<close> calls, which follow the
  assignments to the globals, are left out.
\<close>

datatype request = ExchangeInfo | OpenInterestHist json

record scan_outcome =
  raised :: "pyerr option"
  globals :: published
  requests :: "request list"

definition run_scan :: "runtime \<Rightarrow> exchange \<Rightarrow> published \<Rightarrow> scan_outcome" where
  "run_scan rt ex st =
     (case get_usdtm_symbols (exchange_info ex) of
        Inl e \<Rightarrow> \<lparr>raised = Some e, globals = st, requests = [ExchangeInfo]\<rparr>
      | Inr symbols \<Rightarrow>
          if symbols = [] then \<lparr>raised = None, globals = st, requests = [ExchangeInfo]\<rparr>
          else
            \<lparr>raised = None,
             globals = publish (spikes_of (scan_results rt ex symbols)) st,
             requests = ExchangeInfo # map OpenInterestHist symbols\<rparr>)"

section \<open>The query handlers\<close>

text \<open>Each handler returns its response and the globals as it leaves them.\<close>

definition get_coin_pool :: "published \<Rightarrow> json \<times> published" where
  "get_coin_pool st =
     (JObject
        [(''success'', JBool True),
         (''data'', JObject
            [(''coins'', JArray (map (\<lambda>sym. JObject [(''pair'', sym)]) (coin_pool st))),
             (''count'', JInt (int (length (coin_pool st))))])],
      st)"

definition get_oi_top :: "published \<Rightarrow> json \<times> published" where
  "get_oi_top st =
     (JObject
        [(''success'', JBool True),
         (''data'', JObject
            [(''positions'', JArray (map (\<lambda>sym. JObject [(''symbol'', sym)]) (oi_top st))),
             (''count'', JInt (int (length (oi_top st)))),
             (''exchange'', JString ''binance''),
             (''time_range'', JString ''5m'')])],
      st)"

section \<open>The period aligner\<close>

text \<open>
  A UTC \<^verbatim>\<open>datetime\<close>: the day as its proleptic ordinal (\<^verbatim>\<open>toordinal()\<close>) and the
  time of day. The days run from ordinal 1 (0001-01-01) to \<open>MAXORDINAL\<close> (9999-12-31).
\<close>

record datetime =
  ordinal :: nat
  hour :: nat
  minute :: nat
  second :: nat
  microsecond :: nat

definition MAXORDINAL :: nat where
  "MAXORDINAL = 3652059"

definition valid_datetime :: "datetime \<Rightarrow> bool" where
  "valid_datetime d \<longleftrightarrow>
     1 \<le> ordinal d \<and> ordinal d \<le> MAXORDINAL \<and>
     hour d < 24 \<and> minute d < 60 \<and> second d < 60 \<and> microsecond d < 1000000"

definition aggregation_interval :: nat where
  "aggregation_interval = 5"

definition align_to_kline_period :: "datetime \<Rightarrow> datetime" where
  "align_to_kline_period current_time =
     (let aligned_minute = (minute current_time div aggregation_interval) * aggregation_interval
      in current_time\<lparr>minute := aligned_minute, second := 0, microsecond := 0\<rparr>)"

text \<open>Microseconds since the start of day 0, and back: the arithmetic behind
  \<^verbatim>\<open>datetime + timedelta\<close> and \<^verbatim>\<open>datetime - datetime\<close>.\<close>

definition to_us :: "datetime \<Rightarrow> nat" where
  "to_us d =
     (((ordinal d * 24 + hour d) * 60 + minute d) * 60 + second d) * 1000000 + microsecond d"

definition of_us :: "nat \<Rightarrow> datetime" where
  "of_us n =
     \<lparr>ordinal = n div 86400000000,
      hour = n div 3600000000 mod 24,
      minute = n div 60000000 mod 60,
      second = n div 1000000 mod 60,
      microsecond = n mod 1000000\<rparr>"

text \<open>\<^verbatim>\<open>d + timedelta(minutes=m)\<close>: OverflowError when the day of the sum is outside
  the calendar.\<close>

definition add_minutes :: "datetime \<Rightarrow> nat \<Rightarrow> pyerr + datetime" where
  "add_minutes d m =
     (let r = of_us (to_us d + m * 60000000)
      in if 0 < ordinal r \<and> ordinal r \<le> MAXORDINAL then Inr r else Inl OverflowError)"

definition next_period_start :: "datetime \<Rightarrow> pyerr + datetime" where
  "next_period_start now = add_minutes (align_to_kline_period now) aggregation_interval"

text \<open>
  \<^verbatim>\<open>wait_for_next_kline_period\<close> reads the clock twice: \<open>now1\<close> inside
  \<^verbatim>\<open>align_to_kline_period\<close>, \<open>now2\<close> when it computes the wait. The result is the
  argument of \<^verbatim>\<open>asyncio.sleep\<close> in microseconds, or None when it does not sleep; the
  OverflowError of the addition is not caught.
\<close>

definition wait_seconds_us :: "datetime \<Rightarrow> datetime \<Rightarrow> pyerr + int" where
  "wait_seconds_us now1 now2 =
     bind_err (next_period_start now1) (\<lambda>next_start.
       Inr (int (to_us next_start) - int (to_us now2)))"

definition wait_for_next_kline_period :: "datetime \<Rightarrow> datetime \<Rightarrow> pyerr + int option" where
  "wait_for_next_kline_period now1 now2 =
     bind_err (wait_seconds_us now1 now2) (\<lambda>wait.
       Inr (if wait > 0 then Some wait else None))"

text \<open>Python orders datetimes field by field.\<close>

definition dt_less :: "datetime \<Rightarrow> datetime \<Rightarrow> bool" where
  "dt_less a b \<longleftrightarrow>
     ordinal a < ordinal b \<or> ordinal a = ordinal b \<and>
     (hour a < hour b \<or> hour a = hour b \<and>
     (minute a < minute b \<or> minute a = minute b \<and>
     (second a < second b \<or> second a = second b \<and> microsecond a < microsecond b)))"

definition on_grid :: "datetime \<Rightarrow> bool" where
  "on_grid d \<longleftrightarrow> minute d mod aggregation_interval = 0 \<and> second d = 0 \<and> microsecond d = 0"

section \<open>Notions of the specification\<close>

text \<open>The value of one point of an open-interest series as \<^verbatim>\<open>get_oi_change\<close> reads
  it: the field \<^verbatim>\<open>sumOpenInterestValue\<close> through \<^verbatim>\<open>float\<close>; an \<open>Inl\<close> when the
  point has no numeric value.\<close>

definition series_value :: "runtime \<Rightarrow> json \<Rightarrow> pyerr + pyfloat" where
  "series_value rt point = bind_err (getitem_str point ''sumOpenInterestValue'') (py_float rt)"

text \<open>A catalog entry (the fields of a JSON object) that is a perpetual contract,
  quoted in USDT and trading.\<close>

definition is_usdtm_entry :: "(string \<times> json) list \<Rightarrow> bool" where
  "is_usdtm_entry fs \<longleftrightarrow>
     map_of fs ''contractType'' = Some (JString ''PERPETUAL'') \<and>
     map_of fs ''quoteAsset'' = Some (JString ''USDT'') \<and>
     map_of fs ''status'' = Some (JString ''TRADING'')"

definition usdtm_symbols :: "(string \<times> json) list list \<Rightarrow> json list" where
  "usdtm_symbols entries =
     List.map_filter (\<lambda>fs. if is_usdtm_entry fs then map_of fs ''symbol'' else None) entries"

section \<open>Example inputs\<close>

text \<open>
  A runtime for the examples: \<^verbatim>\<open>float\<close> on the string literals the examples use, and
  arithmetic without rounding (all the numbers of the examples are small integers).
\<close>

definition example_runtime :: runtime where
  "example_runtime =
     \<lparr>float_of_str = map_of
        [(''100'', Fin 100), (''109'', Fin 109), (''50'', Fin 50), (''44'', Fin 44),
         (''0'', Fin 0), (''1'', Fin 1), (''inf'', PInf)],
      round_float = Fin\<rparr>"

definition oi_point :: "string \<Rightarrow> json" where
  "oi_point v = JObject [(''symbol'', JString ''X''), (''sumOpenInterestValue'', JString v)]"

definition catalog_entry :: "string \<Rightarrow> string \<Rightarrow> (string \<times> json) list" where
  "catalog_entry name status =
     [(''symbol'', JString name), (''contractType'', JString ''PERPETUAL''),
      (''quoteAsset'', JString ''USDT''), (''status'', JString status)]"

text \<open>The end-to-end scenario of the specification: A, B and C with the pairs
  (100, 109), (100, 100) and (50, 44); D is listed but not trading. The tasks finish in
  submission order.\<close>

definition example_entries :: "(string \<times> json) list list" where
  "example_entries =
     [catalog_entry ''A'' ''TRADING'', catalog_entry ''B'' ''TRADING'',
      catalog_entry ''D'' ''BREAK'', catalog_entry ''C'' ''TRADING'']"

definition example_exchange :: exchange where
  "example_exchange =
     \<lparr>exchange_info = Some (JObject
        [(''timezone'', JString ''UTC''), (''symbols'', JArray (map JObject example_entries))]),
      open_interest_hist = map_of
        [(JString ''A'', JArray [oi_point ''100'', oi_point ''109'']),
         (JString ''B'', JArray [oi_point ''100'', oi_point ''100'']),
         (JString ''C'', JArray [oi_point ''50'', oi_point ''44''])],
      finish_time = (\<lambda>i. i)\<rparr>"

text \<open>An exchange with no change above the threshold, and one whose catalog request
  fails.\<close>

definition quiet_exchange :: exchange where
  "quiet_exchange =
     \<lparr>exchange_info = Some (JObject [(''symbols'', JArray [JObject (catalog_entry ''B'' ''TRADING'')])]),
      open_interest_hist = map_of [(JString ''B'', JArray [oi_point ''100'', oi_point ''100''])],
      finish_time = (\<lambda>i. i)\<rparr>"

definition unreachable_exchange :: exchange where
  "unreachable_exchange =
     \<lparr>exchange_info = None, open_interest_hist = (\<lambda>s. None), finish_time = (\<lambda>i. i)\<rparr>"

text \<open>An exchange whose history for X has prior value 1 and current value \<^verbatim>\<open>"inf"\<close>,
  and one whose history for Z has prior value 0.\<close>

definition infinite_exchange :: exchange where
  "infinite_exchange =
     \<lparr>exchange_info = Some (JObject [(''symbols'', JArray [JObject (catalog_entry ''X'' ''TRADING'')])]),
      open_interest_hist = map_of [(JString ''X'', JArray [oi_point ''1'', oi_point ''inf''])],
      finish_time = (\<lambda>i. i)\<rparr>"

definition zero_exchange :: exchange where
  "zero_exchange =
     \<lparr>exchange_info = Some (JObject [(''symbols'', JArray [JObject (catalog_entry ''Z'' ''TRADING'')])]),
      open_interest_hist = map_of [(JString ''Z'', JArray [oi_point ''0'', oi_point ''109''])],
      finish_time = (\<lambda>i. i)\<rparr>"

definition previous_state :: published where
  "previous_state = \<lparr>coin_pool = [JString ''A'', JString ''C''], oi_top = [JString ''C'', JString ''A'']\<rparr>"

text \<open>12:07:33 and 12:10:00 on day 739000.\<close>

definition example_time :: datetime where
  "example_time = \<lparr>ordinal = 739000, hour = 12, minute = 7, second = 33, microsecond = 0\<rparr>"

definition example_boundary :: datetime where
  "example_boundary = \<lparr>ordinal = 739000, hour = 12, minute = 10, second = 0, microsecond = 0\<rparr>"

text \<open>9999-12-31 23:57:00, in the last five minutes of the calendar.\<close>

definition last_minutes :: datetime where
  "last_minutes = \<lparr>ordinal = 3652059, hour = 23, minute = 57, second = 0, microsecond = 0\<rparr>"

text \<open>Exchanges whose catalog body is the JSON number 5, the JSON value true, or the
  JSON list \<^verbatim>\<open>["symbols"]\<close>.\<close>

definition number_exchange :: exchange where
  "number_exchange =
     \<lparr>exchange_info = Some (JInt 5), open_interest_hist = (\<lambda>s. None), finish_time = (\<lambda>i. i)\<rparr>"

definition true_exchange :: exchange where
  "true_exchange =
     \<lparr>exchange_info = Some (JBool True), open_interest_hist = (\<lambda>s. None),
      finish_time = (\<lambda>i. i)\<rparr>"

definition list_exchange :: exchange where
  "list_exchange =
     \<lparr>exchange_info = Some (JArray [JString ''symbols'']), open_interest_hist = (\<lambda>s. None),
      finish_time = (\<lambda>i. i)\<rparr>"

section \<open>Auxiliary facts\<close>

subsection \<open>Completion order and scan results\<close>

lemma mset_as_completed: "mset (as_completed f xs) = mset xs"
  unfolding as_completed_def
  by (metis map_snd_enumerate mset_map mset_sort)

lemma set_as_completed: "set (as_completed f xs) = set xs"
  by (metis mset_as_completed set_mset_mset)

lemma set_map_filter_id: "set (List.map_filter (\<lambda>r. r) xs) = {x. Some x \<in> set xs}"
  by (induction xs) (auto simp: List.map_filter_simps split: option.splits)

lemma set_scan_results:
  "set (scan_results rt ex symbols) =
     {r. \<exists>s \<in> set symbols. get_oi_change rt (open_interest_hist ex s) s = Some r}"
  unfolding scan_results_def by (force simp: set_map_filter_id set_as_completed)

lemma oi_change_try_series:
  "oi_change_try rt (a # b # rest) =
     bind_err (series_value rt a) (\<lambda>oi_old.
     bind_err (series_value rt b) (\<lambda>oi_now.
     bind_err (float_truediv rt (fsub rt oi_now oi_old) oi_old) (\<lambda>q.
       Inr (fmul rt q (Fin 100), oi_now))))"
  by (simp add: oi_change_try_def series_value_def bind_err_def split: sum.splits)

lemma get_oi_change_symbol: "get_oi_change rt data s = Some r \<Longrightarrow> fst r = s"
  by (auto simp: get_oi_change_def split: option.splits json.splits if_splits sum.splits)

subsection \<open>The catalog filter\<close>

lemma entry_matches_object: "entry_matches (JObject fs) = Inr (is_usdtm_entry fs)"
  by (auto simp: entry_matches_def is_usdtm_entry_def bind_err_def split: option.splits)

lemma select_symbols_objects:
  "\<forall>fs \<in> set entries. is_usdtm_entry fs \<longrightarrow> map_of fs ''symbol'' \<noteq> None \<Longrightarrow>
   select_symbols (map JObject entries) = Inr (usdtm_symbols entries)"
  by (induction entries)
    (auto simp: usdtm_symbols_def entry_matches_object bind_err_def List.map_filter_simps)

text \<open>What \<^verbatim>\<open>get_usdtm_symbols\<close> returns when nothing raises: the empty list for a
  failed request, for a body that is false or for which \<^verbatim>\<open>"symbols" in data\<close> is
  false; for an object whose \<^verbatim>\<open>symbols\<close> is a list of entry objects, the symbols of
  the entries that are perpetual, quoted in USDT and trading, in catalog order.\<close>

lemma get_usdtm_symbols_well_formed:
  "get_usdtm_symbols None = Inr []
   \<and> (\<not> py_truthy d \<or> py_contains d ''symbols'' = Inr False \<longrightarrow>
        get_usdtm_symbols (Some d) = Inr [])
   \<and> (map_of kvs ''symbols'' = None \<longrightarrow> get_usdtm_symbols (Some (JObject kvs)) = Inr [])
   \<and> (map_of kvs ''symbols'' = Some (JArray (map JObject entries))
        \<and> (\<forall>fs \<in> set entries. is_usdtm_entry fs \<longrightarrow> map_of fs ''symbol'' \<noteq> None)
      \<longrightarrow> get_usdtm_symbols (Some (JObject kvs)) = Inr (usdtm_symbols entries))"
proof -
  have "get_usdtm_symbols (Some (JObject kvs)) = Inr (usdtm_symbols entries)"
    if "map_of kvs ''symbols'' = Some (JArray (map JObject entries))"
      and "\<forall>fs \<in> set entries. is_usdtm_entry fs \<longrightarrow> map_of fs ''symbol'' \<noteq> None"
  proof -
    from that(1) have "kvs \<noteq> []" by auto
    with that(1) select_symbols_objects[OF that(2)] show ?thesis
      by (simp add: get_usdtm_symbols_def bind_err_def)
  qed
  moreover have "get_usdtm_symbols (Some (JObject kvs)) = Inr []" if "map_of kvs ''symbols'' = None"
    using that by (simp add: get_usdtm_symbols_def bind_err_def)
  moreover have "get_usdtm_symbols (Some d) = Inr []"
    if "\<not> py_truthy d \<or> py_contains d ''symbols'' = Inr False"
    using that by (auto simp: get_usdtm_symbols_def bind_err_def)
  ultimately show ?thesis by (simp add: get_usdtm_symbols_def)
qed

subsection \<open>Float comparison and the reversed stable sort\<close>

lemma flt_irrefl: "\<not> flt a a"
  by (cases a) simp_all

lemma fge_iff_not_flt: "a \<noteq> NaN \<Longrightarrow> b \<noteq> NaN \<Longrightarrow> fge a b \<longleftrightarrow> \<not> flt a b"
  by (cases a; cases b) simp_all

lemma flt_imp_fge: "flt a b \<Longrightarrow> fge b a"
  by (cases a; cases b) auto

lemma fge_trans: "fge a b \<Longrightarrow> fge b c \<Longrightarrow> fge a c"
  by (cases a; cases b; cases c) auto

lemma fge_not_nan: "fge a b \<Longrightarrow> a \<noteq> NaN \<and> b \<noteq> NaN"
  by (cases a; cases b) auto

lemma mset_insort_reverse: "mset (insort_reverse k x xs) = add_mset x (mset xs)"
  by (induction xs) auto

lemma mset_sorted_reverse: "mset (sorted_reverse k xs) = mset xs"
  by (induction xs) (auto simp: mset_insort_reverse)

lemma set_insort_reverse: "set (insort_reverse k x xs) = insert x (set xs)"
  by (induction xs) auto

lemma set_sorted_reverse: "set (sorted_reverse k xs) = set xs"
  by (induction xs) (auto simp: set_insort_reverse)

lemma descending_insort_reverse:
  assumes "k x \<noteq> NaN" and "\<forall>y \<in> set xs. k y \<noteq> NaN"
    and "sorted_wrt (\<lambda>a b. fge (k a) (k b)) xs"
  shows "sorted_wrt (\<lambda>a b. fge (k a) (k b)) (insort_reverse k x xs)"
  using assms
proof (induction xs)
  case Nil
  then show ?case by simp
next
  case (Cons y ys)
  show ?case
  proof (cases "flt (k x) (k y)")
    case True
    then have "fge (k y) (k x)" by (rule flt_imp_fge)
    with True Cons show ?thesis by (auto simp: set_insort_reverse)
  next
    case False
    with Cons.prems have xy: "fge (k x) (k y)" by (simp add: fge_iff_not_flt)
    then have "\<forall>z \<in> set ys. fge (k x) (k z)"
      using Cons.prems(3) by (auto intro: fge_trans)
    with False xy Cons.prems(3) show ?thesis by simp
  qed
qed

lemma descending_sorted_reverse:
  "\<forall>y \<in> set xs. k y \<noteq> NaN \<Longrightarrow> sorted_wrt (\<lambda>a b. fge (k a) (k b)) (sorted_reverse k xs)"
  by (induction xs) (auto intro!: descending_insort_reverse simp: set_sorted_reverse)

lemma filter_key_insort_reverse:
  "filter (\<lambda>y. k y = v) (insort_reverse k x xs) =
     (if k x = v then x # filter (\<lambda>y. k y = v) xs else filter (\<lambda>y. k y = v) xs)"
  by (induction xs) (auto simp: flt_irrefl)

lemma sorted_reverse_stable:
  "filter (\<lambda>y. k y = v) (sorted_reverse k xs) = filter (\<lambda>y. k y = v) xs"
  by (induction xs) (simp_all add: filter_key_insort_reverse)

lemma spikes_not_nan: "r \<in> set (spikes_of results) \<Longrightarrow> abs_change r \<noteq> NaN"
  by (auto simp: spikes_of_def dest: fge_not_nan)

lemma fabs_nan_iff: "fabs c = NaN \<longleftrightarrow> c = NaN"
  by (cases c) simp_all

lemma scan_results_Nil: "scan_results rt ex [] = []"
  by (simp add: scan_results_def as_completed_def List.map_filter_simps enumerate_simps)

lemma run_scan_publish:
  "get_usdtm_symbols (exchange_info ex) = Inr symbols \<Longrightarrow>
   globals (run_scan rt ex st) = publish (spikes_of (scan_results rt ex symbols)) st"
  by (simp add: run_scan_def scan_results_Nil spikes_of_def publish_def)

subsection \<open>Datetime arithmetic\<close>

lemma to_us_of_us: "to_us (of_us n) = n"
proof -
  have a: "n div 1000000 div 60 = n div 60000000" by (simp add: div_mult2_eq[symmetric])
  have b: "n div 60000000 div 60 = n div 3600000000" by (simp add: div_mult2_eq[symmetric])
  have c: "n div 3600000000 div 24 = n div 86400000000" by (simp add: div_mult2_eq[symmetric])
  have "n div 86400000000 * 24 + n div 3600000000 mod 24 = n div 3600000000"
    using c by (metis div_mult_mod_eq)
  moreover have "n div 3600000000 * 60 + n div 60000000 mod 60 = n div 60000000"
    using b by (metis div_mult_mod_eq)
  moreover have "n div 60000000 * 60 + n div 1000000 mod 60 = n div 1000000"
    using a by (metis div_mult_mod_eq)
  moreover have "n div 1000000 * 1000000 + n mod 1000000 = n"
    by simp
  ultimately show ?thesis by (simp add: to_us_def of_us_def)
qed

lemma valid_of_us:
  "0 < n div 86400000000 \<Longrightarrow> n div 86400000000 \<le> MAXORDINAL \<Longrightarrow> valid_datetime (of_us n)"
  by (simp add: valid_datetime_def of_us_def)

lemma lex_less:
  fixes a b x y B :: nat
  assumes "x < B" and "y < B"
  shows "a * B + x < b * B + y \<longleftrightarrow> a < b \<or> a = b \<and> x < y"
proof -
  have 1: "a * B + x < b * B + y" if "a < b"
  proof -
    from that have "Suc a * B \<le> b * B" by (intro mult_le_mono1) simp
    with assms show ?thesis by simp
  qed
  have 2: "b * B + y < a * B + x" if "b < a"
  proof -
    from that have "Suc b * B \<le> a * B" by (intro mult_le_mono1) simp
    with assms show ?thesis by simp
  qed
  show ?thesis using 1 2 by (cases a b rule: linorder_cases) auto
qed

lemma lex_eq:
  fixes a b x y B :: nat
  assumes "x < B" and "y < B"
  shows "a * B + x = b * B + y \<longleftrightarrow> a = b \<and> x = y"
  using lex_less[OF assms, of a b] lex_less[OF assms(2,1), of b a] by auto

lemma dt_less_iff:
  assumes "valid_datetime a" and "valid_datetime b"
  shows "dt_less a b \<longleftrightarrow> to_us a < to_us b"
proof -
  from assms have h: "hour a < 24" "hour b < 24" and m: "minute a < 60" "minute b < 60"
    and s: "second a < 60" "second b < 60"
    and u: "microsecond a < 1000000" "microsecond b < 1000000"
    by (simp_all add: valid_datetime_def)
  show ?thesis
    unfolding to_us_def dt_less_def
    by (simp only: lex_less[OF u] lex_less[OF s] lex_less[OF m] lex_less[OF h]
        lex_eq[OF s] lex_eq[OF m] lex_eq[OF h]) blast
qed

lemma to_us_align:
  assumes "valid_datetime now"
  shows "to_us (align_to_kline_period now) = to_us now div 300000000 * 300000000"
proof -
  define q where "q = (ordinal now * 24 + hour now) * 60"
  define r where "r = second now * 1000000 + microsecond now"
  from assms have r: "r < 60000000" by (simp add: valid_datetime_def r_def)
  have t: "to_us now = (q + minute now) * 60000000 + r"
    by (simp add: to_us_def q_def r_def algebra_simps)
  have q5: "q = (ordinal now * 24 + hour now) * 12 * 5" by (simp add: q_def)
  have "to_us now div 300000000 = (to_us now div 60000000) div 5"
    by (simp add: div_mult2_eq[symmetric])
  also have "to_us now div 60000000 = q + minute now" using r by (simp add: t)
  also have "(q + minute now) div 5 = (ordinal now * 24 + hour now) * 12 + minute now div 5"
    by (simp add: q5)
  finally have "to_us now div 300000000 * 300000000 =
      ((ordinal now * 24 + hour now) * 12 + minute now div 5) * 300000000" by simp
  also have "\<dots> = to_us (align_to_kline_period now)"
    by (simp add: align_to_kline_period_def aggregation_interval_def to_us_def algebra_simps)
  finally show ?thesis by simp
qed

lemma next_in_calendar:
  assumes "valid_datetime now"
    and "ordinal now < MAXORDINAL \<or> hour now < 23 \<or> minute now < 55"
  shows "0 < ((to_us now div 300000000 + 1) * 300000000) div 86400000000
    \<and> ((to_us now div 300000000 + 1) * 300000000) div 86400000000 \<le> MAXORDINAL"
proof -
  define am where "am = minute now div 5 * 5"
  define m where "m = (ordinal now * 24 + hour now) * 60 + am"
  define n where "n = (to_us now div 300000000 + 1) * 300000000"
  have "n = to_us (align_to_kline_period now) + 300000000"
    by (simp add: n_def to_us_align[OF assms(1)])
  also have "to_us (align_to_kline_period now) = m * 60000000"
    by (simp add: m_def am_def align_to_kline_period_def aggregation_interval_def to_us_def)
  finally have n: "n = m * 60000000 + 300000000" .
  from assms(1) have v: "1 \<le> ordinal now" "ordinal now \<le> 3652059" "hour now < 24"
    "minute now < 60"
    by (simp_all add: valid_datetime_def MAXORDINAL_def)
  have am: "am \<le> 55"
    using v(4) by (simp add: am_def)
  have am50: "am \<le> 50" if "minute now < 55"
    using that by (simp add: am_def)
  have m: "m = ordinal now * 1440 + hour now * 60 + am"
    by (simp add: m_def)
  have m_lo: "1440 \<le> m"
    using v(1) unfolding m by linarith
  have m_hi: "m + 5 < 5258966400"
  proof -
    consider "ordinal now < 3652059" | "hour now < 23" | "minute now < 55"
      using assms(2) by (auto simp: MAXORDINAL_def)
    then show ?thesis
    proof cases
      case 1
      then show ?thesis using v am unfolding m by linarith
    next
      case 2
      then show ?thesis using v am unfolding m by linarith
    next
      case 3
      then show ?thesis using v am50 unfolding m by linarith
    qed
  qed
  have lo: "86400000000 \<le> n"
    using m_lo unfolding n by linarith
  have hi: "n < 315537984000000000"
    using m_hi unfolding n by linarith
  from lo have "0 < n div 86400000000"
    by (simp add: div_greater_zero_iff)
  moreover from hi have "n div 86400000000 < 3652060"
    by (simp add: div_less_iff_less_mult)
  ultimately show ?thesis by (simp add: n_def MAXORDINAL_def)
qed

lemma next_period_start_of_us:
  assumes "valid_datetime now"
    and "ordinal now < MAXORDINAL \<or> hour now < 23 \<or> minute now < 55"
  shows "next_period_start now = Inr (of_us ((to_us now div 300000000 + 1) * 300000000))"
proof -
  define x where "x = (to_us now div 300000000 + 1) * 300000000"
  have k: "to_us (align_to_kline_period now) + aggregation_interval * 60000000 = x"
    by (simp add: x_def to_us_align[OF assms(1)] aggregation_interval_def)
  have c: "0 < x div 86400000000" "x div 86400000000 \<le> MAXORDINAL"
    using next_in_calendar[OF assms] by (simp_all add: x_def)
  have o: "ordinal (of_us x) = x div 86400000000"
    by (simp add: of_us_def)
  have "next_period_start now = Inr (of_us x)"
    unfolding next_period_start_def add_minutes_def k using c o by (simp add: Let_def)
  then show ?thesis by (simp only: x_def)
qed

lemma on_grid_of_us: "n mod 300000000 = 0 \<Longrightarrow> on_grid (of_us n)"
proof -
  assume "n mod 300000000 = 0"
  then obtain k where n: "n = k * 300000000" by (metis div_mult_mod_eq add.right_neutral)
  have "n div 60000000 = k * 5" by (simp add: n)
  moreover have "n div 1000000 = k * 300" by (simp add: n)
  moreover have "n mod 1000000 = 0" by (simp add: n)
  ultimately show ?thesis by (simp add: on_grid_def of_us_def aggregation_interval_def mod_mod_cancel)
qed

lemma on_grid_to_us:
  assumes "on_grid g"
  shows "to_us g mod 300000000 = 0"
proof -
  from assms obtain j where j: "minute g = j * 5" and "second g = 0" "microsecond g = 0"
    by (auto simp: on_grid_def aggregation_interval_def mult.commute
        elim!: dvdE dest!: mod_0_imp_dvd)
  then have "to_us g = ((ordinal g * 24 + hour g) * 12 + j) * 300000000"
    by (simp add: to_us_def algebra_simps)
  then show ?thesis by simp
qed

subsection \<open>The examples, evaluated\<close>

lemma next_period_start_overflow:
  "valid_datetime last_minutes \<and> next_period_start last_minutes = Inl OverflowError"
  by (simp add: valid_datetime_def next_period_start_def add_minutes_def align_to_kline_period_def
      to_us_def of_us_def last_minutes_def aggregation_interval_def MAXORDINAL_def)

lemmas example_defs =
  example_runtime_def oi_point_def catalog_entry_def example_entries_def example_exchange_def
  quiet_exchange_def unreachable_exchange_def infinite_exchange_def zero_exchange_def
  previous_state_def initial_state_def

lemmas scan_defs =
  get_usdtm_symbols_def entry_matches_def bind_err_def get_oi_change_def oi_change_try_def
  float_truediv_def scan_results_def as_completed_def spikes_of_def abs_change_def
  THRESHOLD_def publish_def run_scan_def series_value_def usdtm_symbols_def is_usdtm_entry_def
  List.map_filter_simps enumerate_simps

lemma example_universe:
  "get_usdtm_symbols (exchange_info example_exchange) = Inr [JString ''A'', JString ''B'', JString ''C'']"
  by (simp add: example_defs scan_defs)

lemma example_results:
  "scan_results example_runtime example_exchange [JString ''A'', JString ''B'', JString ''C''] =
     [(JString ''A'', Fin 9, Fin 109), (JString ''B'', Fin 0, Fin 100),
      (JString ''C'', Fin (- 12), Fin 44)]"
  by (simp add: example_defs scan_defs)

lemma example_spikes:
  "spikes_of [(JString ''A'', Fin 9, Fin 109), (JString ''B'', Fin 0, Fin 100),
      (JString ''C'', Fin (- 12), Fin 44)] =
     [(JString ''A'', Fin 9, Fin 109), (JString ''C'', Fin (- 12), Fin 44)]"
  by (simp add: scan_defs)

section \<open>Claims\<close>

text \<open>
  Claim C1. When the history response for a symbol is a list whose first two points
  have numeric values \<open>oldValue\<close> and \<open>newValue\<close> with \<open>oldValue\<close> not zero,
  \<^verbatim>\<open>get_oi_change\<close> returns the symbol, the change
  \<open>(newValue - oldValue) / oldValue * 100\<close> computed in float arithmetic, and
  \<open>newValue\<close>; and the scan of a universe that contains the symbol has that result
  among its results.
\<close>

theorem get_oi_change_formula:
  assumes "open_interest_hist ex symbol = Some (JArray (a # b # rest))"
    and "series_value rt a = Inr oldValue"
    and "series_value rt b = Inr newValue"
    and "oldValue \<noteq> Fin 0"
    and "changePct = fmul rt (fdiv rt (fsub rt newValue oldValue) oldValue) (Fin 100)"
  shows "get_oi_change rt (open_interest_hist ex symbol) symbol = Some (symbol, changePct, newValue)
    \<and> (symbol \<in> set symbols \<longrightarrow> (symbol, changePct, newValue) \<in> set (scan_results rt ex symbols))"
proof -
  have r: "get_oi_change rt (open_interest_hist ex symbol) symbol = Some (symbol, changePct, newValue)"
    using assms
    by (simp add: get_oi_change_def oi_change_try_series bind_err_def float_truediv_def)
  then show ?thesis by (auto simp: set_scan_results)
qed

text \<open>The symbol A of the example: 100 and 109 give a change of 9 percent.\<close>

theorem get_oi_change_formula_witness:
  "open_interest_hist example_exchange (JString ''A'') =
     Some (JArray [oi_point ''100'', oi_point ''109''])
   \<and> series_value example_runtime (oi_point ''100'') = Inr (Fin 100)
   \<and> series_value example_runtime (oi_point ''109'') = Inr (Fin 109)
   \<and> Fin 100 \<noteq> Fin 0
   \<and> get_oi_change example_runtime (open_interest_hist example_exchange (JString ''A''))
        (JString ''A'') = Some (JString ''A'', Fin 9, Fin 109)
   \<and> (JString ''A'', Fin 9, Fin 109)
        \<in> set (scan_results example_runtime example_exchange
              [JString ''A'', JString ''B'', JString ''C''])"
proof -
  have h1: "open_interest_hist example_exchange (JString ''A'') =
     Some (JArray [oi_point ''100'', oi_point ''109''])"
    by (simp add: example_exchange_def)
  have h2: "series_value example_runtime (oi_point ''100'') = Inr (Fin 100)"
    by (simp add: example_defs scan_defs)
  have h3: "series_value example_runtime (oi_point ''109'') = Inr (Fin 109)"
    by (simp add: example_defs scan_defs)
  have h4: "Fin 100 \<noteq> Fin 0" by simp
  have h5: "Fin 9 = fmul example_runtime
      (fdiv example_runtime (fsub example_runtime (Fin 109) (Fin 100)) (Fin 100)) (Fin 100)"
    by (simp add: example_runtime_def)
  from get_oi_change_formula[OF h1 h2 h3 h4 h5, of "[JString ''A'', JString ''B'', JString ''C'']"]
    h1 h2 h3 h4
  show ?thesis by simp
qed

text \<open>
  Claim C2. In a cycle that publishes (its spike list is not empty), \<open>coin_pool\<close> is the
  spike symbols in completion order and \<open>oi_top\<close> the same entries reordered: the same
  symbols with the same multiplicities, every entry's absolute change at least that of
  each entry after it, and entries of equal absolute change in their original order.
\<close>

theorem ranked_spikes_sorted:
  assumes "get_usdtm_symbols (exchange_info ex) = Inr symbols"
    and "spikes = spikes_of (scan_results rt ex symbols)"
    and "spikes \<noteq> []"
    and "st' = globals (run_scan rt ex st)"
    and "ranked = sorted_reverse abs_change spikes"
  shows "coin_pool st' = map fst spikes \<and> oi_top st' = map fst ranked
    \<and> mset ranked = mset spikes
    \<and> set (oi_top st') = set (coin_pool st')
    \<and> mset (oi_top st') = mset (coin_pool st')
    \<and> sorted_wrt (\<lambda>a b. fge (abs_change a) (abs_change b)) ranked
    \<and> (\<forall>v. filter (\<lambda>r. abs_change r = v) ranked = filter (\<lambda>r. abs_change r = v) spikes)"
proof -
  from assms(2,3) have "symbols \<noteq> []"
    by (auto simp: scan_results_Nil spikes_of_def)
  with assms have st': "st' = \<lparr>coin_pool = map fst spikes, oi_top = map fst ranked\<rparr>"
    by (simp add: run_scan_def publish_def)
  have m: "mset ranked = mset spikes"
    by (simp add: assms(5) mset_sorted_reverse)
  then have mm: "mset (map fst ranked) = mset (map fst spikes)"
    by simp
  then have ss: "set (map fst ranked) = set (map fst spikes)"
    by (rule mset_eq_setD)
  have "\<forall>y \<in> set spikes. abs_change y \<noteq> NaN"
    using assms(2) by (auto dest: spikes_not_nan)
  then have d: "sorted_wrt (\<lambda>a b. fge (abs_change a) (abs_change b)) ranked"
    unfolding assms(5) by (rule descending_sorted_reverse)
  have s: "\<forall>v. filter (\<lambda>r. abs_change r = v) ranked = filter (\<lambda>r. abs_change r = v) spikes"
    by (simp add: assms(5) sorted_reverse_stable)
  from st' m mm ss d s show ?thesis by simp
qed

text \<open>The end-to-end scenario: the pool is A, C and the ranking C, A.\<close>

theorem ranked_spikes_sorted_witness:
  "get_usdtm_symbols (exchange_info example_exchange) =
     Inr [JString ''A'', JString ''B'', JString ''C'']
   \<and> spikes_of (scan_results example_runtime example_exchange
        [JString ''A'', JString ''B'', JString ''C'']) =
      [(JString ''A'', Fin 9, Fin 109), (JString ''C'', Fin (- 12), Fin 44)]
   \<and> coin_pool (globals (run_scan example_runtime example_exchange initial_state)) =
      [JString ''A'', JString ''C'']
   \<and> oi_top (globals (run_scan example_runtime example_exchange initial_state)) =
      [JString ''C'', JString ''A'']"
proof -
  let ?spikes = "[(JString ''A'', Fin 9, Fin 109), (JString ''C'', Fin (- 12), Fin 44)]"
  have h1: "get_usdtm_symbols (exchange_info example_exchange) =
     Inr [JString ''A'', JString ''B'', JString ''C'']"
    by (rule example_universe)
  have h2: "?spikes = spikes_of (scan_results example_runtime example_exchange
        [JString ''A'', JString ''B'', JString ''C''])"
    by (simp only: example_results example_spikes)
  have h3: "?spikes \<noteq> []" by simp
  from ranked_spikes_sorted[OF h1 h2 h3 refl refl, of initial_state]
  have c: "coin_pool (globals (run_scan example_runtime example_exchange initial_state)) =
      map fst ?spikes"
    and t: "oi_top (globals (run_scan example_runtime example_exchange initial_state)) =
      map fst (sorted_reverse abs_change ?spikes)"
    by blast+
  show ?thesis
    using h1 h2[symmetric] by (simp add: c t abs_change_def)
qed

text \<open>
  Claim C3. A cycle whose filtered spike list is empty leaves both published lists as
  they were, whatever they were.
\<close>

theorem empty_spikes_keep_state:
  assumes "get_usdtm_symbols (exchange_info ex) = Inr symbols"
    and "spikes_of (scan_results rt ex symbols) = []"
  shows "globals (run_scan rt ex st) = st"
  using assms by (simp add: run_scan_def publish_def)

text \<open>A cycle in which nothing moves keeps the state published before it.\<close>

theorem empty_spikes_keep_state_witness:
  "get_usdtm_symbols (exchange_info quiet_exchange) = Inr [JString ''B'']
   \<and> spikes_of (scan_results example_runtime quiet_exchange [JString ''B'']) = []
   \<and> globals (run_scan example_runtime quiet_exchange previous_state) = previous_state"
proof -
  have h1: "get_usdtm_symbols (exchange_info quiet_exchange) = Inr [JString ''B'']"
    by (simp add: example_defs scan_defs)
  have h2: "spikes_of (scan_results example_runtime quiet_exchange [JString ''B'']) = []"
    by (simp add: example_defs scan_defs)
  from empty_spikes_keep_state[OF h1 h2, of previous_state] h1 h2 show ?thesis by simp
qed

text \<open>
  Claim C4, as amended. A symbol whose series has a prior value of zero, or a prior or
  current value that is not numeric, gets no result: \<^verbatim>\<open>get_oi_change\<close> returns None
  and no scan result carries the symbol. The state after the cycle is what
  \<open>publish\<close> makes of the spike list, and no entry of the spike list carries that
  symbol or has NaN as its change: a NaN fails the threshold test. (An infinite change
  passes the threshold test; see the example after this theorem.)
\<close>

theorem degenerate_series_excluded:
  assumes "get_usdtm_symbols (exchange_info ex) = Inr symbols"
    and "open_interest_hist ex symbol = Some (JArray (a # b # rest))"
    and "series_value rt a = Inr (Fin 0) \<or> (\<exists>e. series_value rt a = Inl e)
           \<or> (\<exists>e. series_value rt b = Inl e)"
  shows "get_oi_change rt (open_interest_hist ex symbol) symbol = None
    \<and> (\<forall>r \<in> set (scan_results rt ex symbols). fst r \<noteq> symbol)
    \<and> globals (run_scan rt ex st) = publish (spikes_of (scan_results rt ex symbols)) st
    \<and> (\<forall>r \<in> set (spikes_of (scan_results rt ex symbols)). fst r \<noteq> symbol \<and> fst (snd r) \<noteq> NaN)"
proof -
  have n: "get_oi_change rt (open_interest_hist ex symbol) symbol = None"
    using assms(2,3)
    by (auto simp: get_oi_change_def oi_change_try_series bind_err_def float_truediv_def
        split: sum.splits)
  have x: "fst r \<noteq> symbol" if "r \<in> set (scan_results rt ex symbols)" for r
  proof
    assume "fst r = symbol"
    moreover from that obtain s where "get_oi_change rt (open_interest_hist ex s) s = Some r"
      by (auto simp: set_scan_results)
    ultimately show False using n get_oi_change_symbol[of rt "open_interest_hist ex s" s r]
      by simp
  qed
  have "fst r \<noteq> symbol \<and> fst (snd r) \<noteq> NaN"
    if "r \<in> set (spikes_of (scan_results rt ex symbols))" for r
  proof -
    from that have "r \<in> set (scan_results rt ex symbols)" by (simp add: spikes_of_def)
    then show ?thesis
      using x spikes_not_nan[OF that] by (simp add: abs_change_def fabs_nan_iff)
  qed
  with n x run_scan_publish[OF assms(1)] show ?thesis by blast
qed

text \<open>The symbol Z, whose prior value is 0: no result, and the state stays.\<close>

theorem degenerate_series_excluded_witness:
  "get_usdtm_symbols (exchange_info zero_exchange) = Inr [JString ''Z'']
   \<and> open_interest_hist zero_exchange (JString ''Z'') =
     Some (JArray [oi_point ''0'', oi_point ''109''])
   \<and> series_value example_runtime (oi_point ''0'') = Inr (Fin 0)
   \<and> get_oi_change example_runtime (open_interest_hist zero_exchange (JString ''Z''))
        (JString ''Z'') = None
   \<and> scan_results example_runtime zero_exchange [JString ''Z''] = []
   \<and> globals (run_scan example_runtime zero_exchange previous_state) = previous_state"
proof -
  have h0: "get_usdtm_symbols (exchange_info zero_exchange) = Inr [JString ''Z'']"
    by (simp add: example_defs scan_defs)
  have h1: "open_interest_hist zero_exchange (JString ''Z'') =
     Some (JArray [oi_point ''0'', oi_point ''109''])"
    by (simp add: zero_exchange_def)
  have h2: "series_value example_runtime (oi_point ''0'') = Inr (Fin 0)"
    by (simp add: example_defs scan_defs)
  from degenerate_series_excluded[OF h0 h1 disjI1, OF h2, of previous_state]
  have n: "get_oi_change example_runtime (open_interest_hist zero_exchange (JString ''Z''))
        (JString ''Z'') = None"
    and g: "globals (run_scan example_runtime zero_exchange previous_state) =
      publish (spikes_of (scan_results example_runtime zero_exchange [JString ''Z''])) previous_state"
    by blast+
  have r: "scan_results example_runtime zero_exchange [JString ''Z''] = []"
    using n by (simp add: scan_results_def as_completed_def enumerate_simps List.map_filter_simps)
  show ?thesis
    using h0 h1 h2 n r by (simp add: g spikes_of_def publish_def)
qed

text \<open>
  The claim as stated fails for infinity: with prior value 1 and current value
  \<^verbatim>\<open>"inf"\<close> the change of X is infinite, and X is published.
\<close>

theorem infinite_change_published:
  "get_oi_change example_runtime (open_interest_hist infinite_exchange (JString ''X''))
      (JString ''X'') = Some (JString ''X'', PInf, PInf)
   \<and> globals (run_scan example_runtime infinite_exchange initial_state) =
       \<lparr>coin_pool = [JString ''X''], oi_top = [JString ''X'']\<rparr>"
  by (simp add: example_defs scan_defs)

text \<open>
  Claim C5. When the catalog request fails or the symbol universe is empty, the scan
  ends at once: the catalog request is the only request sent, no history request is
  made, nothing is raised and the published state is the previous one.
\<close>

theorem empty_universe_aborts:
  assumes "exchange_info ex = None \<or> get_usdtm_symbols (exchange_info ex) = Inr []"
  shows "run_scan rt ex st = \<lparr>raised = None, globals = st, requests = [ExchangeInfo]\<rparr>
    \<and> (\<forall>s. OpenInterestHist s \<notin> set (requests (run_scan rt ex st)))"
proof -
  from assms have "get_usdtm_symbols (exchange_info ex) = Inr []"
    by (auto simp: get_usdtm_symbols_def)
  then show ?thesis by (simp add: run_scan_def)
qed

text \<open>A catalog request that fails.\<close>

theorem empty_universe_aborts_witness:
  "exchange_info unreachable_exchange = None
   \<and> run_scan example_runtime unreachable_exchange previous_state =
       \<lparr>raised = None, globals = previous_state, requests = [ExchangeInfo]\<rparr>"
proof -
  have h: "exchange_info unreachable_exchange = None"
    by (simp add: unreachable_exchange_def)
  from empty_universe_aborts[OF disjI1, OF h, of example_runtime previous_state] h
  show ?thesis by simp
qed

text \<open>
  Claim C6. For a current time \<open>now\<close> whose next boundary is still in the calendar
  (any time before 9999-12-31 23:55:00), the next period start is computed without
  error and is a valid time on the five-minute grid, later than \<open>now\<close>, and no grid
  time later than \<open>now\<close> is earlier than it. The wait computed at \<open>now\<close> is positive
  and at most five minutes, and whatever the two clock readings are, a sleep is only
  ever requested for a positive duration.
\<close>

theorem next_period_start_least:
  assumes "valid_datetime now"
    and "ordinal now < MAXORDINAL \<or> hour now < 23 \<or> minute now < 55"
  shows "\<exists>nb. next_period_start now = Inr nb
    \<and> valid_datetime nb \<and> on_grid nb \<and> dt_less now nb
    \<and> (\<forall>g. valid_datetime g \<and> on_grid g \<and> dt_less now g \<longrightarrow> \<not> dt_less g nb)
    \<and> (\<exists>w. wait_seconds_us now now = Inr w \<and> 0 < w \<and> w \<le> 300000000)
    \<and> (\<forall>now1 now2 w. wait_for_next_kline_period now1 now2 = Inr (Some w) \<longrightarrow> 0 < w)"
proof -
  define nb where "nb = of_us ((to_us now div 300000000 + 1) * 300000000)"
  have e: "next_period_start now = Inr nb"
    unfolding nb_def by (rule next_period_start_of_us[OF assms])
  have n: "to_us nb = (to_us now div 300000000 + 1) * 300000000"
    by (simp add: nb_def to_us_of_us)
  have v: "valid_datetime nb"
    unfolding nb_def using next_in_calendar[OF assms]
    by (intro valid_of_us) blast+
  have g: "on_grid nb"
    unfolding nb_def by (rule on_grid_of_us) simp
  define q r where "q = to_us now div 300000000" and "r = to_us now mod 300000000"
  have r: "r < 300000000" by (simp add: r_def)
  have qr: "to_us now = q * 300000000 + r" by (simp add: q_def r_def)
  have nq: "to_us nb = q * 300000000 + 300000000" by (simp add: n q_def)
  have lt: "to_us now < to_us nb"
    using r qr nq by linarith
  have le: "to_us nb \<le> to_us now + 300000000"
    using qr nq by linarith
  have least: "\<not> dt_less g nb" if "valid_datetime g" "on_grid g" "dt_less now g" for g
  proof -
    from that(2) obtain k where k: "to_us g = k * 300000000"
      by (metis on_grid_to_us div_mult_mod_eq add.right_neutral)
    from that assms(1) have "to_us now < to_us g" by (simp add: dt_less_iff)
    then have "to_us now div 300000000 < k"
      unfolding k by (simp add: div_less_iff_less_mult)
    then have "(to_us now div 300000000 + 1) * 300000000 \<le> k * 300000000"
      by (intro mult_le_mono1) simp
    then show ?thesis using that(1) v by (simp add: dt_less_iff n k)
  qed
  have w: "\<exists>w. wait_seconds_us now now = Inr w \<and> 0 < w \<and> w \<le> 300000000"
    using lt le by (simp add: wait_seconds_us_def e bind_err_def)
  have s: "\<forall>now1 now2 w. wait_for_next_kline_period now1 now2 = Inr (Some w) \<longrightarrow> 0 < w"
    by (auto simp: wait_for_next_kline_period_def bind_err_def split: sum.splits if_splits)
  have dl: "dt_less now nb"
    using lt by (simp add: dt_less_iff[OF assms(1) v])
  from e v g dl least w s show ?thesis by blast
qed

text \<open>At 12:07:33 the next start is 12:10:00, 147 seconds away; at 12:10:00 it is
  12:15:00.\<close>

theorem next_period_start_least_witness:
  "valid_datetime example_time
   \<and> ordinal example_time < MAXORDINAL
   \<and> next_period_start example_time = Inr example_boundary
   \<and> on_grid example_boundary
   \<and> dt_less example_time example_boundary
   \<and> next_period_start example_boundary = Inr (example_boundary\<lparr>minute := 15\<rparr>)
   \<and> wait_for_next_kline_period example_time example_time = Inr (Some 147000000)"
proof -
  have v: "valid_datetime example_time"
    by (simp add: valid_datetime_def example_time_def MAXORDINAL_def)
  have b: "ordinal example_time < MAXORDINAL"
    by (simp add: example_time_def MAXORDINAL_def)
  have n: "next_period_start example_time = Inr example_boundary"
    by (simp add: next_period_start_def add_minutes_def align_to_kline_period_def to_us_def
        of_us_def example_time_def example_boundary_def aggregation_interval_def MAXORDINAL_def)
  have n2: "next_period_start example_boundary = Inr (example_boundary\<lparr>minute := 15\<rparr>)"
    by (simp add: next_period_start_def add_minutes_def align_to_kline_period_def to_us_def
        of_us_def example_boundary_def aggregation_interval_def MAXORDINAL_def)
  have w: "wait_for_next_kline_period example_time example_time = Inr (Some 147000000)"
    by (simp add: wait_for_next_kline_period_def wait_seconds_us_def n bind_err_def)
      (simp add: to_us_def example_time_def example_boundary_def)
  from next_period_start_least[OF v disjI1, OF b] v b n n2 w show ?thesis by auto
qed

text \<open>
  Claim C7. The claim asks for the empty list whenever the response has no
  \<^verbatim>\<open>symbols\<close> field. The catalog bodies \<^verbatim>\<open>5\<close>, \<^verbatim>\<open>true\<close> and \<^verbatim>\<open>["symbols"]\<close> have
  none, and on each of them \<^verbatim>\<open>get_usdtm_symbols\<close> raises TypeError instead (the test
  \<^verbatim>\<open>"symbols" not in data\<close> or the subscript \<^verbatim>\<open>data["symbols"]\<close> fails); nothing
  catches it, so \<^verbatim>\<open>run_scan\<close> ends with that exception. On a failed request, a false
  body, an object without the key and a well-formed catalog the function does what the
  claim says (\<open>get_usdtm_symbols_well_formed\<close>).
\<close>

theorem get_usdtm_symbols_raises:
  "get_usdtm_symbols (exchange_info number_exchange) = Inl TypeError
   \<and> get_usdtm_symbols (exchange_info true_exchange) = Inl TypeError
   \<and> get_usdtm_symbols (exchange_info list_exchange) = Inl TypeError
   \<and> run_scan example_runtime number_exchange previous_state =
       \<lparr>raised = Some TypeError, globals = previous_state, requests = [ExchangeInfo]\<rparr>"
proof -
  have n: "get_usdtm_symbols (exchange_info number_exchange) = Inl TypeError"
    by (simp add: number_exchange_def get_usdtm_symbols_def bind_err_def)
  have t: "get_usdtm_symbols (exchange_info true_exchange) = Inl TypeError"
    by (simp add: true_exchange_def get_usdtm_symbols_def bind_err_def)
  have l: "get_usdtm_symbols (exchange_info list_exchange) = Inl TypeError"
    by (simp add: list_exchange_def get_usdtm_symbols_def bind_err_def)
  have r: "run_scan example_runtime number_exchange previous_state =
       \<lparr>raised = Some TypeError, globals = previous_state, requests = [ExchangeInfo]\<rparr>"
    by (simp add: run_scan_def n)
  from n t l r show ?thesis by simp
qed

text \<open>
  Claim C8. For every published state, \<^verbatim>\<open>/coinpool\<close> answers with \<open>success\<close> true, the
  pool's symbols in order, each as \<open>{pair: symbol}\<close>, and their number; \<^verbatim>\<open>/oitop\<close>
  answers with \<open>success\<close> true, the ranking's symbols in order, each as
  \<open>{symbol: symbol}\<close>, their number, \<open>binance\<close> and \<open>5m\<close>. Both leave the state as
  it is, and both answer on the initial, empty state.
\<close>

theorem query_handlers_read_state:
  "get_coin_pool st =
     (JObject [(''success'', JBool True),
        (''data'', JObject
           [(''coins'', JArray (map (\<lambda>s. JObject [(''pair'', s)]) (coin_pool st))),
            (''count'', JInt (int (length (map (\<lambda>s. JObject [(''pair'', s)]) (coin_pool st)))))])],
      st)
   \<and> get_oi_top st =
     (JObject [(''success'', JBool True),
        (''data'', JObject
           [(''positions'', JArray (map (\<lambda>s. JObject [(''symbol'', s)]) (oi_top st))),
            (''count'', JInt (int (length (map (\<lambda>s. JObject [(''symbol'', s)]) (oi_top st))))),
            (''exchange'', JString ''binance''), (''time_range'', JString ''5m'')])],
      st)
   \<and> fst (get_coin_pool initial_state) =
       JObject [(''success'', JBool True),
         (''data'', JObject [(''coins'', JArray []), (''count'', JInt 0)])]
   \<and> fst (get_oi_top initial_state) =
       JObject [(''success'', JBool True),
         (''data'', JObject [(''positions'', JArray []), (''count'', JInt 0),
            (''exchange'', JString ''binance''), (''time_range'', JString ''5m'')])]"
  by (simp add: get_coin_pool_def get_oi_top_def initial_state_def)

text \<open>
  Claim C10. A history response of two or more elements passes the length check
  however long it is: the result is the one computed from its elements 0 and 1 alone,
  and it is None only when reading those two fails.
\<close>

theorem get_oi_change_first_two:
  assumes "2 \<le> length xs"
  shows "get_oi_change rt (Some (JArray xs)) symbol =
           get_oi_change rt (Some (JArray [xs ! 0, xs ! 1])) symbol
    \<and> (get_oi_change rt (Some (JArray xs)) symbol = None \<longleftrightarrow>
         (\<exists>e. oi_change_try rt [xs ! 0, xs ! 1] = Inl e))"
proof -
  from assms obtain a b rest where xs: "xs = a # b # rest"
    by (cases xs; cases "tl xs") auto
  show ?thesis
    by (auto simp: xs get_oi_change_def oi_change_try_def split: sum.splits)
qed

text \<open>Three points 100, 109, 50: the change is that of 100 and 109, not that of 109
  and 50.\<close>

theorem get_oi_change_first_two_witness:
  "2 \<le> length [oi_point ''100'', oi_point ''109'', oi_point ''50'']
   \<and> get_oi_change example_runtime
        (Some (JArray [oi_point ''100'', oi_point ''109'', oi_point ''50''])) (JString ''A'') =
      Some (JString ''A'', Fin 9, Fin 109)
   \<and> get_oi_change example_runtime
        (Some (JArray [oi_point ''109'', oi_point ''50''])) (JString ''A'') \<noteq>
      Some (JString ''A'', Fin 9, Fin 109)"
proof -
  have h: "2 \<le> length [oi_point ''100'', oi_point ''109'', oi_point ''50'']" by simp
  have e: "get_oi_change example_runtime
        (Some (JArray [oi_point ''100'', oi_point ''109''])) (JString ''A'') =
      Some (JString ''A'', Fin 9, Fin 109)"
    by (simp add: example_defs scan_defs)
  have d: "get_oi_change example_runtime
        (Some (JArray [oi_point ''109'', oi_point ''50''])) (JString ''A'') \<noteq>
      Some (JString ''A'', Fin 9, Fin 109)"
    by (simp add: example_defs scan_defs)
  from get_oi_change_first_two[OF h, of example_runtime "JString ''A''"] e d h
  show ?thesis by simp
qed

end
